theory Spec2Isabelle
  imports Complex_Main "HOL-Library.Word"
begin

section \<open>The relational store of web_app_wastemanagement.py\<close>

text \<open>
  The tables are the ones \<open>init_database\<close> creates. A row is a record whose fields are
  the columns in the order of the \<open>CREATE TABLE\<close> statement; a table is the list of its
  rows in insertion order. Columns that some \<open>INSERT\<close> leaves out and that have no default
  are NULL, hence \<open>option\<close>. SQLite integers and Python integers are \<open>int\<close>; the REAL
  columns are kept as \<open>real\<close> (no claim depends on rounding). Timestamps and dates are the
  text SQLite stores. The tables \<open>facilities\<close> and \<open>vehicles\<close> carry no points, no
  users and no collection status and are left out.
\<close>

record user_row =
  id_u :: int
  username :: string
  email :: string
  password_hash :: string
  full_name :: string
  phone :: string
  address :: string
  user_type :: string
  ward_number :: string
  unique_waste_id :: string
  registration_date :: string
  training_completed :: int
  points :: int

datatype collection_status = Scheduled | Collected | Processed

record collection_row =
  id_wc :: int
  user_id_wc :: int
  collection_date :: string
  waste_type :: string
  weight_kg :: real
  segregated :: int
  collected_by :: "string option"
  vehicle_number :: "string option"
  status_wc :: collection_status
  latitude_wc :: real
  longitude_wc :: real

datatype complaint_status = Pending | In_progress | Resolved

record complaint_row =
  id_c :: int
  user_id_c :: int
  complaint_type :: string
  description :: string
  location :: string
  latitude_c :: real
  longitude_c :: real
  status_c :: complaint_status
  created_date :: string
  resolved_date :: "string option"

record reward_row =
  id_r :: int
  user_id_r :: int
  reward_type :: string
  points_earned :: int
  description_r :: string
  earned_date :: string

record database =
  users :: "user_row list"
  waste_collections :: "collection_row list"
  complaints :: "complaint_row list"
  rewards :: "reward_row list"

text \<open>
  \<open>INTEGER PRIMARY KEY AUTOINCREMENT\<close>: the new key is one more than the largest key the
  table has held. No statement of the program deletes a row, so that is the largest key
  present (0 for an empty table).
\<close>

definition autoincrement :: "int list \<Rightarrow> int" where
  "autoincrement ids = foldr max ids 0 + 1"

datatype error = IntegrityError

section \<open>Authentication\<close>

text \<open>
  \<open>hashlib.sha256(s.encode()).hexdigest()\<close> is a library function; it is the parameter
  \<open>H\<close> of every definition that hashes. Both places that hash call it the same way.
\<close>

text \<open>The dictionary \<open>authenticate_user\<close> returns and \<open>st.session_state.user\<close> holds.\<close>

record session_user =
  su_id :: int
  su_username :: string
  su_email :: string
  su_full_name :: string
  su_phone :: string
  su_address :: string
  su_user_type :: string
  su_ward_number :: string
  su_unique_waste_id :: string
  su_points :: int

definition verify_password :: "(string \<Rightarrow> string) \<Rightarrow> string \<Rightarrow> string \<Rightarrow> bool" where
  "verify_password H password pw_hash = (H password = pw_hash)"

text \<open>\<open>SELECT * FROM users WHERE username = ?\<close> followed by \<open>fetchone()\<close>.\<close>

definition select_user_by_username :: "database \<Rightarrow> string \<Rightarrow> user_row option" where
  "select_user_by_username db name = find (\<lambda>u. username u = name) (users db)"

definition user_dict :: "user_row \<Rightarrow> session_user" where
  "user_dict user =
     \<lparr>su_id = id_u user, su_username = username user, su_email = email user,
      su_full_name = full_name user, su_phone = phone user, su_address = address user,
      su_user_type = user_type user, su_ward_number = ward_number user,
      su_unique_waste_id = unique_waste_id user, su_points = points user\<rparr>"

definition authenticate_user ::
  "(string \<Rightarrow> string) \<Rightarrow> database \<Rightarrow> string \<Rightarrow> string \<Rightarrow> session_user option" where
  "authenticate_user H db name password =
     (case select_user_by_username db name of
        None \<Rightarrow> None
      | Some user \<Rightarrow>
          if verify_password H password (password_hash user) then Some (user_dict user)
          else None)"

section \<open>Registration\<close>

text \<open>
  \<open>secrets.token_hex(n)\<close> renders the \<open>n\<close> bytes it draws from the operating system as
  two lower-case hexadecimal digits each; the bytes drawn are the argument here.
  \<open>upper\<close> is \<open>str.upper\<close> on these ASCII characters, \<open>str_nat\<close> the decimal
  rendering of a non-negative integer in an f-string.
\<close>

definition hexdigit :: "nat \<Rightarrow> char" where
  "hexdigit n = ''0123456789abcdef'' ! n"

definition token_hex :: "8 word list \<Rightarrow> string" where
  "token_hex bs = concat (map (\<lambda>b. [hexdigit (unat b div 16), hexdigit (unat b mod 16)]) bs)"

definition upper_char :: "char \<Rightarrow> char" where
  "upper_char c =
     (case map_of (zip ''abcdefghijklmnopqrstuvwxyz'' ''ABCDEFGHIJKLMNOPQRSTUVWXYZ'') c of
        Some C \<Rightarrow> C
      | None \<Rightarrow> c)"

definition upper :: "string \<Rightarrow> string" where
  "upper s = map upper_char s"

fun str_nat :: "nat \<Rightarrow> string" where
  "str_nat n =
     (if n < 10 then [''0123456789'' ! n]
      else str_nat (n div 10) @ [''0123456789'' ! (n mod 10)])"

declare str_nat.simps [simp del]

text \<open>The fields of the registration form; every one is a text input.\<close>

record register_form =
  rf_username :: string
  rf_email :: string
  rf_password :: string
  rf_full_name :: string
  rf_phone :: string
  rf_address :: string
  rf_ward_number :: string

text \<open>
  The row the \<open>INSERT\<close> of \<open>show_register\<close> writes: the eight columns it names, the
  defaults of the schema for \<open>user_type\<close>, \<open>registration_date\<close> (the current time,
  \<open>now\<close>), \<open>training_completed\<close> and \<open>points\<close>, and the next key.
\<close>

definition new_user_row ::
  "(string \<Rightarrow> string) \<Rightarrow> nat \<Rightarrow> 8 word list \<Rightarrow> string \<Rightarrow> database \<Rightarrow> register_form \<Rightarrow> user_row" where
  "new_user_row H year rand now db f =
     \<lparr>id_u = autoincrement (map id_u (users db)),
      username = rf_username f, email = rf_email f,
      password_hash = H (rf_password f),
      full_name = rf_full_name f, phone = rf_phone f, address = rf_address f,
      user_type = ''citizen'', ward_number = rf_ward_number f,
      unique_waste_id = ''WG'' @ str_nat year @ upper (token_hex rand),
      registration_date = now, training_completed = 0, points = 0\<rparr>"

text \<open>
  The three \<open>UNIQUE\<close> columns of \<open>users\<close>; SQLite compares text byte by byte. The form
  always supplies strings, so the \<open>NOT NULL\<close> constraints cannot fail.
\<close>

definition violates_unique :: "user_row list \<Rightarrow> user_row \<Rightarrow> bool" where
  "violates_unique rows r =
     (\<exists>u \<in> set rows. username u = username r \<or> email u = email r
                      \<or> unique_waste_id u = unique_waste_id r)"

text \<open>What a handler shows: \<open>st.success\<close>, \<open>st.error\<close> or \<open>st.warning\<close>.\<close>

datatype message = Success string | Error string | Warning string

text \<open>
  The \<open>INSERT INTO users\<close>: it raises \<open>sqlite3.IntegrityError\<close> and writes nothing
  when a \<open>UNIQUE\<close> constraint fails.
\<close>

definition insert_user :: "database \<Rightarrow> user_row \<Rightarrow> error + database" where
  "insert_user db row =
     (if violates_unique (users db) row then Inl IntegrityError
      else Inr (db\<lparr>users := users db @ [row]\<rparr>))"

text \<open>
  The submit branch of \<open>show_register\<close>: hash, tracking code, \<open>INSERT\<close>, commit; the
  exception is caught and reported. The result is the message and the database the
  handler leaves.
\<close>

definition show_register ::
  "(string \<Rightarrow> string) \<Rightarrow> nat \<Rightarrow> 8 word list \<Rightarrow> string \<Rightarrow> database \<Rightarrow> register_form
     \<Rightarrow> message \<times> database" where
  "show_register H year rand now db f =
     (case insert_user db (new_user_row H year rand now db f) of
        Inr db' \<Rightarrow> (Success ''Registration successful! You can now log in.'', db')
      | Inl IntegrityError \<Rightarrow> (Error ''Username or email already exists.'', db))"

section \<open>Points: collections, complaints, shop, training\<close>

text \<open>\<open>UPDATE users SET points = points + ? WHERE id = ?\<close>\<close>

definition update_points :: "database \<Rightarrow> int \<Rightarrow> int \<Rightarrow> database" where
  "update_points db amount uid =
     db\<lparr>users := map (\<lambda>u. if id_u u = uid then u\<lparr>points := points u + amount\<rparr> else u)
                       (users db)\<rparr>"

record collection_form =
  cf_waste_type :: string
  cf_weight_kg :: real
  cf_collection_date :: string
  cf_segregated :: bool
  cf_location :: string
  cf_latitude :: real
  cf_longitude :: real

text \<open>
  The submit branch of \<open>show_schedule_collection\<close>: the \<open>INSERT\<close> (status, collector
  and vehicle take the defaults of the schema), the points, the session's copy of the
  points, one commit for both statements.
\<close>

definition points_earned_for :: "bool \<Rightarrow> int" where
  "points_earned_for seg = (if seg then 10 else 5)"

definition new_collection_row :: "session_user \<Rightarrow> database \<Rightarrow> collection_form \<Rightarrow> collection_row" where
  "new_collection_row su db f =
     \<lparr>id_wc = autoincrement (map id_wc (waste_collections db)),
      user_id_wc = su_id su,
      collection_date = cf_collection_date f,
      waste_type = cf_waste_type f,
      weight_kg = cf_weight_kg f,
      segregated = (if cf_segregated f then 1 else 0),
      collected_by = None, vehicle_number = None,
      status_wc = Scheduled,
      latitude_wc = cf_latitude f, longitude_wc = cf_longitude f\<rparr>"

definition show_schedule_collection ::
  "session_user \<Rightarrow> database \<Rightarrow> collection_form \<Rightarrow> message \<times> session_user \<times> database" where
  "show_schedule_collection su db f =
     (let db1 = db\<lparr>waste_collections := waste_collections db @ [new_collection_row su db f]\<rparr>;
          points_earned = points_earned_for (cf_segregated f);
          db2 = update_points db1 points_earned (su_id su);
          su' = su\<lparr>su_points := su_points su + points_earned\<rparr>
      in (Success (''Collection scheduled successfully! You earned ''
                   @ str_nat (nat points_earned) @ '' points!''), su', db2))"

record complaint_form =
  xf_complaint_type :: string
  xf_location :: string
  xf_latitude :: real
  xf_longitude :: real
  xf_description :: string

definition new_complaint_row ::
  "string \<Rightarrow> session_user \<Rightarrow> database \<Rightarrow> complaint_form \<Rightarrow> complaint_row" where
  "new_complaint_row now su db f =
     \<lparr>id_c = autoincrement (map id_c (complaints db)),
      user_id_c = su_id su,
      complaint_type = xf_complaint_type f,
      description = xf_description f,
      location = xf_location f,
      latitude_c = xf_latitude f, longitude_c = xf_longitude f,
      status_c = Pending, created_date = now, resolved_date = None\<rparr>"

text \<open>The submit branch of \<open>show_complaints\<close>.\<close>

definition show_complaints ::
  "string \<Rightarrow> session_user \<Rightarrow> database \<Rightarrow> complaint_form \<Rightarrow> message \<times> session_user \<times> database" where
  "show_complaints now su db f =
     (let db1 = db\<lparr>complaints := complaints db @ [new_complaint_row now su db f]\<rparr>;
          db2 = update_points db1 5 (su_id su);
          su' = su\<lparr>su_points := su_points su + 5\<rparr>
      in (Success ''Complaint submitted successfully! You earned 5 points for reporting.'',
          su', db2))"

record product =
  p_name :: string
  p_price :: int
  p_points :: int
  p_stock :: int
  p_category :: string

definition products :: "product list" where
  "products =
     [\<lparr>p_name = ''3-Bin Segregation Set'', p_price = 1500, p_points = 300, p_stock = 10,
       p_category = ''Equipment''\<rparr>,
      \<lparr>p_name = ''Compost Kit'', p_price = 2000, p_points = 400, p_stock = 5,
       p_category = ''Composting''\<rparr>,
      \<lparr>p_name = ''Eco Bags (Set of 5)'', p_price = 500, p_points = 100, p_stock = 20,
       p_category = ''Accessories''\<rparr>,
      \<lparr>p_name = ''Organic Fertilizer'', p_price = 800, p_points = 160, p_stock = 15,
       p_category = ''Garden''\<rparr>,
      \<lparr>p_name = ''Solar Waste Bin'', p_price = 5000, p_points = 1000, p_stock = 3,
       p_category = ''Technology''\<rparr>,
      \<lparr>p_name = ''Safety Gloves'', p_price = 300, p_points = 60, p_stock = 25,
       p_category = ''Safety''\<rparr>]"

definition filtered_products :: "string \<Rightarrow> product list" where
  "filtered_products selected_category =
     (if selected_category \<noteq> ''All''
      then filter (\<lambda>p. p_category p = selected_category) products
      else products)"

text \<open>
  One product card of \<open>show_shop\<close> when the user goes for its Buy button with the
  quantity of the number input. The button is disabled when one unit is not affordable:
  then it cannot be pressed and the card shows the warning. The purchase is simulated on
  the session's copy of the points; \<open>show_shop\<close> has no database statement.
\<close>

definition buy :: "session_user \<Rightarrow> product \<Rightarrow> int \<Rightarrow> message \<times> session_user" where
  "buy su p quantity =
     (let can_afford = (su_points su \<ge> p_points p) in
      if \<not> can_afford then (Warning ''Insufficient points'', su)
      else
        let total_points = p_points p * quantity in
        if su_points su \<ge> total_points
        then (Success (''Purchased '' @ str_nat (nat quantity) @ ''x '' @ p_name p @ ''!''),
              su\<lparr>su_points := su_points su - total_points\<rparr>)
        else (Error ''Insufficient points!'', su))"

text \<open>
  The quantity input of card \<open>i\<close> accepts the integers from 1 to \<open>min(5, stock)\<close>; a
  card exists for each index of the filtered list.
\<close>

definition show_shop :: "session_user \<Rightarrow> string \<Rightarrow> nat \<Rightarrow> int \<Rightarrow> session_user" where
  "show_shop su selected_category i quantity =
     (let ps = filtered_products selected_category in
      if i < length ps \<and> 1 \<le> quantity \<and> quantity \<le> min 5 (p_stock (ps ! i))
      then snd (buy su (ps ! i) quantity)
      else su)"

text \<open>The points of the four modules of \<open>show_training\<close>, in the order of the list.\<close>

definition module_points :: "int list" where
  "module_points = [50, 75, 100, 80]"

text \<open>Pressing "Start Module i+1": only the session's copy of the points changes.\<close>

definition show_training :: "session_user \<Rightarrow> nat \<Rightarrow> session_user" where
  "show_training su i =
     (if i < length module_points
      then su\<lparr>su_points := su_points su + module_points ! i\<rparr>
      else su)"

section \<open>Collection status\<close>

text \<open>
  SQLite's \<open>date(x)\<close> on the two formats the program stores, \<open>YYYY-MM-DD\<close> (a
  scheduled date) and \<open>YYYY-MM-DD HH:MM:SS\<close> (\<open>CURRENT_TIMESTAMP\<close>): the first ten
  characters.
\<close>

definition sql_date :: "string \<Rightarrow> string" where
  "sql_date s = take 10 s"

text \<open>
  The query of \<open>show_worker_collections\<close>: the collections joined with their user whose
  date is today (\<open>today\<close> is \<open>date('now')\<close>). Only the columns of the collection are
  kept here. The \<open>ORDER BY\<close> does not matter to what is looked up by key below.
\<close>

definition today_collections :: "string \<Rightarrow> database \<Rightarrow> collection_row list" where
  "today_collections today db =
     filter (\<lambda>wc. (\<exists>u \<in> set (users db). id_u u = user_id_wc wc)
                   \<and> sql_date (collection_date wc) = today)
            (waste_collections db)"

text \<open>
  \<open>UPDATE waste_collections SET status = ?, collected_by = ?, vehicle_number = ?
  WHERE id = ?\<close>
\<close>

definition update_collection ::
  "database \<Rightarrow> collection_status \<Rightarrow> string \<Rightarrow> string \<Rightarrow> int \<Rightarrow> database" where
  "update_collection db new_status worker vehicle cid =
     db\<lparr>waste_collections :=
          map (\<lambda>c. if id_wc c = cid
                    then c\<lparr>status_wc := new_status, collected_by := Some worker,
                            vehicle_number := Some vehicle\<rparr>
                    else c)
              (waste_collections db)\<rparr>"

text \<open>
  The Update button of the collection with key \<open>cid\<close> on the worker's page. The select
  box, the vehicle input and the button are drawn only for a listed collection whose
  status is \<open>scheduled\<close>; the select box offers the three statuses.
\<close>

definition show_worker_collections ::
  "string \<Rightarrow> session_user \<Rightarrow> database \<Rightarrow> int \<Rightarrow> collection_status \<Rightarrow> string \<Rightarrow> database" where
  "show_worker_collections today su db cid new_status vehicle =
     (case find (\<lambda>c. id_wc c = cid) (today_collections today db) of
        None \<Rightarrow> db
      | Some collection \<Rightarrow>
          if status_wc collection = Scheduled
          then update_collection db new_status (su_full_name su) vehicle (id_wc collection)
          else db)"

text \<open>One press of Update: the day, the worker, the collection, the choice, the vehicle.\<close>

record status_update =
  upd_today :: string
  upd_worker :: session_user
  upd_id :: int
  upd_status :: collection_status
  upd_vehicle :: string

fun status_updates :: "database \<Rightarrow> status_update list \<Rightarrow> database" where
  "status_updates db [] = db"
| "status_updates db (x # xs) =
     status_updates
       (show_worker_collections (upd_today x) (upd_worker x) db (upd_id x) (upd_status x)
          (upd_vehicle x)) xs"

text \<open>The position of a status on the line scheduled, collected, processed.\<close>

fun stage :: "collection_status \<Rightarrow> nat" where
  "stage Scheduled = 0"
| "stage Collected = 1"
| "stage Processed = 2"

section \<open>Segregation rate\<close>

text \<open>
  A pandas or Python float: a number or NaN. The numbers are kept exact. \<open>Series.mean\<close>
  of a column without rows is NaN.
\<close>

datatype py_float = Float real | NaN


definition series_sum :: "int list \<Rightarrow> int" where
  "series_sum xs = sum_list xs"



text \<open>The segregation rate of \<open>create_efficiency_dashboard\<close>.\<close>

definition efficiency_segregation_rate :: "collection_row list \<Rightarrow> py_float" where
  "efficiency_segregation_rate waste_data =
     (let total_collections = length waste_data;
          segregated_collections = series_sum (map segregated waste_data)
      in if total_collections > 0
         then Float (real_of_int segregated_collections / real total_collections * 100)
         else Float 0)"



section \<open>The pages as one transition system\<close>

text \<open>
  \<open>main\<close>: without a logged-in user only the login and the registration pages are
  shown; with one, the menu depends on \<open>user_type\<close>: the collections page for a worker,
  the citizen's pages for every type other than admin and worker. An event a page does
  not offer changes nothing. The values the environment supplies (year, random bytes,
  clock) travel with the event.
\<close>

record app_state =
  db :: database
  session :: "session_user option"

datatype event =
    Login string string
  | Register nat "8 word list" string register_form
  | Logout
  | Schedule_collection collection_form
  | Submit_complaint string complaint_form
  | Buy string nat int
  | Start_module nat
  | Update_collection string int collection_status string

definition citizen_menu :: "session_user \<Rightarrow> bool" where
  "citizen_menu su = (su_user_type su \<noteq> ''admin'' \<and> su_user_type su \<noteq> ''worker'')"

definition worker_menu :: "session_user \<Rightarrow> bool" where
  "worker_menu su = (su_user_type su = ''worker'')"

fun logged_out_step :: "(string \<Rightarrow> string) \<Rightarrow> app_state \<Rightarrow> event \<Rightarrow> app_state" where
  "logged_out_step H s (Login name password) =
     s\<lparr>session := authenticate_user H (db s) name password\<rparr>"
| "logged_out_step H s (Register year rand now f) =
     s\<lparr>db := snd (show_register H year rand now (db s) f)\<rparr>"
| "logged_out_step H s _ = s"

fun logged_in_step :: "session_user \<Rightarrow> app_state \<Rightarrow> event \<Rightarrow> app_state" where
  "logged_in_step su s Logout = s\<lparr>session := None\<rparr>"
| "logged_in_step su s (Schedule_collection f) =
     (if citizen_menu su
      then (let (m, su', db') = show_schedule_collection su (db s) f
            in \<lparr>db = db', session = Some su'\<rparr>)
      else s)"
| "logged_in_step su s (Submit_complaint now f) =
     (if citizen_menu su
      then (let (m, su', db') = show_complaints now su (db s) f
            in \<lparr>db = db', session = Some su'\<rparr>)
      else s)"
| "logged_in_step su s (Buy selected_category i quantity) =
     (if citizen_menu su
      then s\<lparr>session := Some (show_shop su selected_category i quantity)\<rparr>
      else s)"
| "logged_in_step su s (Start_module i) =
     (if citizen_menu su then s\<lparr>session := Some (show_training su i)\<rparr> else s)"
| "logged_in_step su s (Update_collection today cid new_status vehicle) =
     (if worker_menu su
      then s\<lparr>db := show_worker_collections today su (db s) cid new_status vehicle\<rparr>
      else s)"
| "logged_in_step su s _ = s"

definition step :: "(string \<Rightarrow> string) \<Rightarrow> app_state \<Rightarrow> event \<Rightarrow> app_state" where
  "step H s ev =
     (case session s of None \<Rightarrow> logged_out_step H s ev | Some su \<Rightarrow> logged_in_step su s ev)"

fun run :: "(string \<Rightarrow> string) \<Rightarrow> app_state \<Rightarrow> event list \<Rightarrow> app_state" where
  "run H s [] = s"
| "run H s (ev # evs) = run H (step H s ev) evs"

text \<open>The stored balance: the \<open>points\<close> column of the user's row.\<close>

definition stored_points :: "database \<Rightarrow> int \<Rightarrow> int option" where
  "stored_points d uid = map_option points (find (\<lambda>u. id_u u = uid) (users d))"

text \<open>The sum of the points of the rows of the rewards table recorded for a user.\<close>

definition ledger_sum :: "database \<Rightarrow> int \<Rightarrow> int" where
  "ledger_sum d uid = sum_list (map points_earned (filter (\<lambda>r. user_id_r r = uid) (rewards d)))"



section \<open>Concrete data\<close>

text \<open>
  Every theorem below holds for every hash function \<open>H\<close>. Where an instance is
  evaluated, \<open>H\<close> is this stand-in (the reversed string), not SHA-256.
\<close>

definition stand_in_hash :: "string \<Rightarrow> string" where
  "stand_in_hash s = rev s"

definition alice :: user_row where
  "alice =
     \<lparr>id_u = 1, username = ''alice'', email = ''alice@example.com'',
      password_hash = stand_in_hash ''secret'', full_name = ''Alice'', phone = ''9876500001'',
      address = ''Address 1'', user_type = ''citizen'', ward_number = ''Ward 2'',
      unique_waste_id = ''WG20240001'', registration_date = ''2024-05-01 08:00:00'',
      training_completed = 0, points = 0\<rparr>"

definition walt :: user_row where
  "walt =
     \<lparr>id_u = 2, username = ''walt'', email = ''walt@example.com'',
      password_hash = stand_in_hash ''truck'', full_name = ''Walt'', phone = ''9876500002'',
      address = ''Depot'', user_type = ''worker'', ward_number = ''Ward 1'',
      unique_waste_id = ''WG20240002'', registration_date = ''2024-05-01 08:30:00'',
      training_completed = 0, points = 0\<rparr>"

definition db0 :: database where
  "db0 = \<lparr>users = [alice, walt], waste_collections = [], complaints = [], rewards = []\<rparr>"

definition alice_again :: register_form where
  "alice_again =
     \<lparr>rf_username = ''alice'', rf_email = ''other@example.com'', rf_password = ''pw'',
      rf_full_name = ''Alice B'', rf_phone = ''1'', rf_address = ''Elsewhere'',
      rf_ward_number = ''Ward 3''\<rparr>"

definition carol_form :: register_form where
  "carol_form =
     \<lparr>rf_username = ''carol'', rf_email = ''carol@example.com'', rf_password = ''pass'',
      rf_full_name = ''Carol'', rf_phone = ''9876500003'', rf_address = ''Address 3'',
      rf_ward_number = ''Ward 4''\<rparr>"

definition wet_form :: collection_form where
  "wet_form =
     \<lparr>cf_waste_type = ''wet'', cf_weight_kg = 7 / 2, cf_collection_date = ''2024-05-02'',
      cf_segregated = True, cf_location = ''Address 1'', cf_latitude = 286139 / 10000,
      cf_longitude = 77209 / 1000\<rparr>"

definition bins_form :: complaint_form where
  "bins_form =
     \<lparr>xf_complaint_type = ''Overflowing Bins'', xf_location = ''Address 1'',
      xf_latitude = 286139 / 10000, xf_longitude = 77209 / 1000,
      xf_description = ''The bins at the corner are full.''\<rparr>"

definition gloves :: product where
  "gloves =
     \<lparr>p_name = ''Safety Gloves'', p_price = 300, p_points = 60, p_stock = 25,
      p_category = ''Safety''\<rparr>"

definition collection1 :: collection_row where
  "collection1 =
     \<lparr>id_wc = 1, user_id_wc = 1, collection_date = ''2024-05-02'', waste_type = ''dry'',
      weight_kg = 4, segregated = 0, collected_by = Some ''Walt'',
      vehicle_number = Some ''DL01AB1234'', status_wc = Collected,
      latitude_wc = 286139 / 10000, longitude_wc = 77209 / 1000\<rparr>"

definition collection2 :: collection_row where
  "collection2 =
     \<lparr>id_wc = 2, user_id_wc = 1, collection_date = ''2024-05-02'', waste_type = ''wet'',
      weight_kg = 7 / 2, segregated = 1, collected_by = None, vehicle_number = None,
      status_wc = Scheduled, latitude_wc = 286139 / 10000, longitude_wc = 77209 / 1000\<rparr>"

definition db1 :: database where
  "db1 = db0\<lparr>waste_collections := [collection1, collection2]\<rparr>"

definition press :: "int \<Rightarrow> collection_status \<Rightarrow> status_update" where
  "press cid st =
     \<lparr>upd_today = ''2024-05-02'', upd_worker = user_dict walt, upd_id = cid, upd_status = st,
      upd_vehicle = ''DL01CD5678''\<rparr>"

text \<open>The row a registration of \<open>carol_form\<close> in 2024 with the bytes 1f ab 00 c9 writes.\<close>

definition carol :: user_row where
  "carol =
     \<lparr>id_u = 3, username = ''carol'', email = ''carol@example.com'',
      password_hash = ''ssap'', full_name = ''Carol'', phone = ''9876500003'',
      address = ''Address 3'', user_type = ''citizen'', ward_number = ''Ward 4'',
      unique_waste_id = ''WG20241FAB00C9'', registration_date = ''2024-05-03 10:00:00'',
      training_completed = 0, points = 0\<rparr>"

definition dave_form :: register_form where
  "dave_form =
     \<lparr>rf_username = ''dave'', rf_email = ''dave@example.com'', rf_password = ''word'',
      rf_full_name = ''Dave'', rf_phone = ''9876500004'', rf_address = ''Address 4'',
      rf_ward_number = ''Ward 5''\<rparr>"

text \<open>A visit: alice logs in, schedules, complains, takes a module and buys gloves.\<close>

definition visit :: "event list" where
  "visit =
     [Login ''alice'' ''secret'', Schedule_collection wet_form,
      Submit_complaint ''2024-05-02 09:00:00'' bins_form, Start_module 0, Buy ''All'' 5 1]"

text \<open>
  After a registration: carol logs in and schedules, logs out, and a second registration
  draws the same four bytes.
\<close>

definition later :: "event list" where
  "later =
     [Login ''carol'' ''pass'', Schedule_collection wet_form, Logout,
      Register 2024 [0x1f, 0xab, 0x00, 0xc9] ''2024-05-04 10:00:00'' dave_form]"

section \<open>Unfolding the definitions on concrete data\<close>

lemmas data_defs = db0_def alice_def walt_def carol_def carol_form_def dave_form_def wet_form_def
  bins_form_def gloves_def collection1_def collection2_def db1_def press_def stand_in_hash_def
  alice_again_def visit_def later_def

lemmas register_defs = show_register_def insert_user_def violates_unique_def new_user_row_def
  autoincrement_def str_nat.simps token_hex_def hexdigit_def upper_def upper_char_def

lemmas auth_defs = authenticate_user_def select_user_by_username_def verify_password_def
  user_dict_def

lemmas points_defs = show_schedule_collection_def show_complaints_def update_points_def
  new_collection_row_def new_complaint_row_def points_earned_for_def stored_points_def
  ledger_sum_def buy_def show_shop_def filtered_products_def products_def show_training_def
  module_points_def citizen_menu_def worker_menu_def step_def

lemmas status_defs = show_worker_collections_def today_collections_def sql_date_def
  update_collection_def

section \<open>Looking rows up\<close>




lemma find_in_filter:
  assumes "find P (filter Q xs) = Some x"
  shows "x \<in> set xs \<and> P x \<and> Q x"
  using assms by (induction xs) (auto split: if_splits)

lemma key_determines_row:
  assumes "distinct (map k xs)" "x \<in> set xs" "y \<in> set xs" "k x = k y"
  shows "x = y"
  using assms by (meson distinct_map inj_on_def)


section \<open>Registration and authentication\<close>

lemma show_register_cases:
  "show_register H year rand now d f =
     (if violates_unique (users d) (new_user_row H year rand now d f)
      then (Error ''Username or email already exists.'', d)
      else (Success ''Registration successful! You can now log in.'',
            d\<lparr>users := users d @ [new_user_row H year rand now d f]\<rparr>))"
  by (simp add: show_register_def insert_user_def)

lemma show_register_carol:
  "show_register stand_in_hash 2024 [0x1f, 0xab, 0x00, 0xc9] ''2024-05-03 10:00:00'' db0 carol_form
     = (Success ''Registration successful! You can now log in.'',
        db0\<lparr>users := [alice, walt, carol]\<rparr>)"
  by (simp add: register_defs data_defs)

lemma new_user_row_carol:
  "new_user_row stand_in_hash 2024 [0x1f, 0xab, 0x00, 0xc9] ''2024-05-03 10:00:00'' db0 carol_form
     = carol"
  by (simp add: register_defs data_defs)

text \<open>
  C3. A registration whose username or whose email is that of a registered user fails:
  the handler reports "Username or email already exists." (the caught
  \<open>IntegrityError\<close>) and leaves the database as it was, so no row is added and the
  registered user's row is the same.
\<close>

theorem register_duplicate_rejected:
  assumes "u \<in> set (users d)"
    and "username u = rf_username f \<or> email u = rf_email f"
  shows "show_register H year rand now d f = (Error ''Username or email already exists.'', d)"
proof -
  have "violates_unique (users d) (new_user_row H year rand now d f)"
    unfolding violates_unique_def using assms by (auto simp: new_user_row_def)
  then show ?thesis by (simp add: show_register_cases)
qed

theorem register_duplicate_rejected_witness:
  "alice \<in> set (users db0) \<and> username alice = rf_username alice_again
   \<and> show_register stand_in_hash 2024 [0x1f, 0xab, 0x00, 0xc9] ''2024-05-03 10:00:00'' db0
         alice_again
       = (Error ''Username or email already exists.'', db0)"
proof -
  have 1: "alice \<in> set (users db0)" by (simp add: db0_def)
  have 2: "username alice = rf_username alice_again" by (simp add: alice_def alice_again_def)
  from register_duplicate_rejected [OF 1 disjI1 [OF 2]] 1 2 show ?thesis by simp
qed






section \<open>Points\<close>











section \<open>The tables along a run\<close>






lemma users_show_worker_collections:
  "users (show_worker_collections today su d cid st v) = users d"
  by (simp add: show_worker_collections_def update_collection_def split: option.splits)
















section \<open>Collection status\<close>

lemma ids_update_collection:
  "map id_wc (waste_collections (update_collection d st w v cid)) = map id_wc (waste_collections d)"
  by (simp add: update_collection_def)

lemma ids_show_worker_collections:
  "map id_wc (waste_collections (show_worker_collections today su d cid st v))
     = map id_wc (waste_collections d)"
  by (simp add: show_worker_collections_def ids_update_collection split: option.splits)

lemma length_show_worker_collections:
  "length (waste_collections (show_worker_collections today su d cid st v))
     = length (waste_collections d)"
  using ids_show_worker_collections [of today su d cid st v, THEN arg_cong, of length] by simp

lemma nth_update_collection:
  assumes "i < length (waste_collections d)"
  shows "waste_collections (update_collection d st w v cid) ! i =
           (if id_wc (waste_collections d ! i) = cid
            then (waste_collections d ! i)\<lparr>status_wc := st, collected_by := Some w,
                                            vehicle_number := Some v\<rparr>
            else waste_collections d ! i)"
  using assms by (simp add: update_collection_def)

lemma show_worker_collections_row:
  assumes "distinct (map id_wc (waste_collections d))" and "i < length (waste_collections d)"
  shows "waste_collections (show_worker_collections today su d cid st v) ! i = waste_collections d ! i
       \<or> (status_wc (waste_collections d ! i) = Scheduled
          \<and> waste_collections (show_worker_collections today su d cid st v) ! i
              = (waste_collections d ! i)\<lparr>status_wc := st, collected_by := Some (su_full_name su),
                                              vehicle_number := Some v\<rparr>)"
proof (cases "find (\<lambda>c. id_wc c = cid) (today_collections today d)")
  case None
  then show ?thesis by (simp add: show_worker_collections_def)
next
  case (Some collection)
  then have mem: "collection \<in> set (waste_collections d)"
    unfolding today_collections_def by (auto dest: find_in_filter)
  show ?thesis
  proof (cases "status_wc collection = Scheduled")
    case False
    with Some show ?thesis by (simp add: show_worker_collections_def)
  next
    case True
    let ?c = "waste_collections d ! i"
    have upd: "show_worker_collections today su d cid st v
                 = update_collection d st (su_full_name su) v (id_wc collection)"
      using Some True by (simp add: show_worker_collections_def)
    show ?thesis
    proof (cases "id_wc ?c = id_wc collection")
      case False
      then show ?thesis by (simp add: upd nth_update_collection assms(2))
    next
      case same: True
      have "?c \<in> set (waste_collections d)" using assms(2) by simp
      then have "?c = collection" using mem same by (rule key_determines_row [OF assms(1)])
      with True same show ?thesis by (simp add: upd nth_update_collection assms(2))
    qed
  qed
qed

lemma show_worker_collections_forward:
  assumes "distinct (map id_wc (waste_collections d))" and "i < length (waste_collections d)"
  shows "stage (status_wc (waste_collections d ! i))
           \<le> stage (status_wc (waste_collections (show_worker_collections today su d cid st v) ! i))"
    and "status_wc (waste_collections d ! i) \<noteq> Scheduled \<Longrightarrow>
           waste_collections (show_worker_collections today su d cid st v) ! i
             = waste_collections d ! i"
  using show_worker_collections_row [OF assms, of today su cid st v] by auto

lemma status_updates_db1:
  "map status_wc
     (waste_collections
        (status_updates db1 [press 1 Scheduled, press 2 Processed, press 2 Collected,
                             press 2 Scheduled]))
     = [Collected, Processed]"
  by (simp add: status_defs data_defs user_dict_def)

text \<open>
  C7. With collection keys distinct (the primary key), along every sequence of presses of
  the worker's Update button no collection is added or removed, every collection keeps its
  key, its status never moves to an earlier position on the line scheduled, collected,
  processed, and a collection whose status is collected or processed is not changed at
  all: the page draws the button only for a collection whose status is scheduled, so an
  attempt on any other is ignored. From scheduled the select box allows scheduled,
  collected and processed.
\<close>

theorem collection_status_only_moves_forward:
  assumes "distinct (map id_wc (waste_collections d))" and "i < length (waste_collections d)"
  shows "length (waste_collections (status_updates d xs)) = length (waste_collections d)
       \<and> id_wc (waste_collections (status_updates d xs) ! i) = id_wc (waste_collections d ! i)
       \<and> stage (status_wc (waste_collections d ! i))
            \<le> stage (status_wc (waste_collections (status_updates d xs) ! i))
       \<and> (status_wc (waste_collections d ! i) \<noteq> Scheduled \<longrightarrow>
            waste_collections (status_updates d xs) ! i = waste_collections d ! i)"
  using assms
proof (induction xs arbitrary: d)
  case Nil
  then show ?case by simp
next
  case (Cons x xs)
  let ?d1 = "show_worker_collections (upd_today x) (upd_worker x) d (upd_id x) (upd_status x)
               (upd_vehicle x)"
  have ids: "map id_wc (waste_collections ?d1) = map id_wc (waste_collections d)"
    by (rule ids_show_worker_collections)
  have len: "length (waste_collections ?d1) = length (waste_collections d)"
    by (rule length_show_worker_collections)
  have dist: "distinct (map id_wc (waste_collections ?d1))" using Cons.prems(1) ids by simp
  have i1: "i < length (waste_collections ?d1)" using Cons.prems(2) len by simp
  note IH = Cons.IH [OF dist i1]
  have fwd: "stage (status_wc (waste_collections d ! i))
               \<le> stage (status_wc (waste_collections ?d1 ! i))"
    by (rule show_worker_collections_forward(1) [OF Cons.prems])
  have keep: "status_wc (waste_collections d ! i) \<noteq> Scheduled \<Longrightarrow>
                waste_collections ?d1 ! i = waste_collections d ! i"
    by (rule show_worker_collections_forward(2) [OF Cons.prems])
  have idi: "id_wc (waste_collections ?d1 ! i) = id_wc (waste_collections d ! i)"
    using ids Cons.prems(2) len by (metis i1 nth_map)
  show ?case
    using IH fwd keep idi len by auto
qed

theorem collection_status_only_moves_forward_witness:
  "distinct (map id_wc (waste_collections db1))
   \<and> 0 < length (waste_collections db1) \<and> 1 < length (waste_collections db1)
   \<and> status_wc (waste_collections db1 ! 0) \<noteq> Scheduled
   \<and> waste_collections
        (status_updates db1 [press 1 Scheduled, press 2 Processed, press 2 Collected,
                             press 2 Scheduled]) ! 0
       = waste_collections db1 ! 0
   \<and> stage (status_wc (waste_collections db1 ! 1))
       \<le> stage (status_wc (waste_collections
             (status_updates db1 [press 1 Scheduled, press 2 Processed, press 2 Collected,
                                  press 2 Scheduled]) ! 1))
   \<and> map status_wc
        (waste_collections
           (status_updates db1 [press 1 Scheduled, press 2 Processed, press 2 Collected,
                                press 2 Scheduled]))
       = [Collected, Processed]"
proof -
  let ?xs = "[press 1 Scheduled, press 2 Processed, press 2 Collected, press 2 Scheduled]"
  have d: "distinct (map id_wc (waste_collections db1))"
    by (simp add: db1_def collection1_def collection2_def)
  have i0: "0 < length (waste_collections db1)" and i1: "1 < length (waste_collections db1)"
    by (simp_all add: db1_def)
  have n: "status_wc (waste_collections db1 ! 0) \<noteq> Scheduled"
    by (simp add: db1_def collection1_def)
  have a: "waste_collections (status_updates db1 ?xs) ! 0 = waste_collections db1 ! 0"
    using collection_status_only_moves_forward [OF d i0, of ?xs] n by blast
  have b: "stage (status_wc (waste_collections db1 ! 1))
             \<le> stage (status_wc (waste_collections (status_updates db1 ?xs) ! 1))"
    using collection_status_only_moves_forward [OF d i1, of ?xs] by blast
  show ?thesis
    by (intro conjI) (fact d i0 i1 n a b status_updates_db1)+
qed

section \<open>Tracking codes\<close>

lemma upper_char_hex: "map upper_char ''0123456789abcdef'' = ''0123456789ABCDEF''"
  by (simp add: upper_char_def)

lemma hex_upper:
  assumes "n < 16"
  shows "upper_char (hexdigit n) \<in> set ''0123456789ABCDEF''"
proof -
  from assms have "hexdigit n \<in> set ''0123456789abcdef''"
    unfolding hexdigit_def by (intro nth_mem) simp
  then have "upper_char (hexdigit n) \<in> upper_char ` set ''0123456789abcdef''"
    by (rule imageI)
  then have "upper_char (hexdigit n) \<in> set (map upper_char ''0123456789abcdef'')"
    by (simp only: set_map)
  then show ?thesis
    by (simp only: upper_char_hex)
qed

lemma token_hex_length: "length (token_hex bs) = 2 * length bs"
  by (induction bs) (auto simp: token_hex_def)

lemma upper_length: "length (upper s) = length s"
  by (simp add: upper_def)

lemma unat_byte_div: "unat (b :: 8 word) div 16 < 16"
proof -
  have "unat b < 2 ^ 8" using unsigned_less [of b] by simp
  then show ?thesis by simp
qed

lemma token_hex_upper_set: "set (upper (token_hex bs)) \<subseteq> set ''0123456789ABCDEF''"
proof -
  define S where "S = set ''0123456789ABCDEF''"
  have "set (upper (token_hex bs)) \<subseteq> S"
  proof (induction bs)
    case Nil
    then show ?case by (simp add: token_hex_def upper_def)
  next
    case (Cons b bs)
    have 1: "upper_char (hexdigit (unat b div 16)) \<in> S"
      unfolding S_def by (rule hex_upper) (rule unat_byte_div)
    have 2: "upper_char (hexdigit (unat b mod 16)) \<in> S"
      unfolding S_def by (rule hex_upper) simp
    have "upper (token_hex (b # bs)) =
       upper_char (hexdigit (unat b div 16)) # upper_char (hexdigit (unat b mod 16))
         # upper (token_hex bs)"
      by (simp add: token_hex_def upper_def)
    with 1 2 Cons show ?case by simp
  qed
  then show ?thesis by (simp only: S_def)
qed

lemma waste_ids_update_points:
  "map unique_waste_id (users (update_points d a uid)) = map unique_waste_id (users d)"
  by (simp add: update_points_def comp_def if_distrib cong: if_cong)

lemma waste_ids_show_register:
  "\<exists>ys. map unique_waste_id (users (snd (show_register H year rand now d f)))
          = map unique_waste_id (users d) @ ys"
  by (simp add: show_register_cases)

lemma distinct_waste_ids_show_register:
  assumes "distinct (map unique_waste_id (users d))"
  shows "distinct (map unique_waste_id (users (snd (show_register H year rand now d f))))"
  using assms by (auto simp: show_register_cases violates_unique_def)

lemma waste_ids_show_schedule_collection:
  "map unique_waste_id (users (snd (snd (show_schedule_collection su d f))))
     = map unique_waste_id (users d)"
  by (simp add: show_schedule_collection_def Let_def waste_ids_update_points)

lemma waste_ids_show_complaints:
  "map unique_waste_id (users (snd (snd (show_complaints now su d f))))
     = map unique_waste_id (users d)"
  by (simp add: show_complaints_def Let_def waste_ids_update_points)

lemma logged_out_step_waste_ids:
  "\<exists>ys. map unique_waste_id (users (db (logged_out_step H s ev)))
          = map unique_waste_id (users (db s)) @ ys"
  by (cases ev) (simp_all add: waste_ids_show_register)

lemma logged_in_step_waste_ids:
  "map unique_waste_id (users (db (logged_in_step su s ev))) = map unique_waste_id (users (db s))"
  by (cases ev)
     (simp_all add: waste_ids_show_schedule_collection waste_ids_show_complaints
        users_show_worker_collections split_beta Let_def)

lemma step_waste_ids:
  "\<exists>ys. map unique_waste_id (users (db (step H s ev))) = map unique_waste_id (users (db s)) @ ys"
  by (cases "session s") (simp_all add: step_def logged_out_step_waste_ids logged_in_step_waste_ids)

lemma logged_out_step_distinct_waste_ids:
  assumes "distinct (map unique_waste_id (users (db s)))"
  shows "distinct (map unique_waste_id (users (db (logged_out_step H s ev))))"
  using assms by (cases ev) (simp_all add: distinct_waste_ids_show_register)

lemma step_distinct_waste_ids:
  assumes "distinct (map unique_waste_id (users (db s)))"
  shows "distinct (map unique_waste_id (users (db (step H s ev))))"
  using assms
  by (cases "session s")
     (simp_all add: step_def logged_out_step_distinct_waste_ids logged_in_step_waste_ids)

lemma run_waste_ids:
  "\<exists>ys. map unique_waste_id (users (db (run H s evs))) = map unique_waste_id (users (db s)) @ ys"
proof (induction evs arbitrary: s)
  case Nil
  then show ?case by simp
next
  case (Cons ev evs)
  obtain ys where 1: "map unique_waste_id (users (db (step H s ev)))
                        = map unique_waste_id (users (db s)) @ ys"
    using step_waste_ids by blast
  obtain zs where 2: "map unique_waste_id (users (db (run H (step H s ev) evs)))
                        = map unique_waste_id (users (db (step H s ev))) @ zs"
    using Cons.IH by blast
  show ?case by (simp add: 1 2)
qed

lemma run_distinct_waste_ids:
  assumes "distinct (map unique_waste_id (users (db s)))"
  shows "distinct (map unique_waste_id (users (db (run H s evs))))"
  using assms by (induction evs arbitrary: s) (simp_all add: step_distinct_waste_ids)

lemma run_later:
  "map unique_waste_id
     (users (db (run stand_in_hash \<lparr>db = db0\<lparr>users := [alice, walt, carol]\<rparr>, session = None\<rparr>
                   later)))
     = [''WG20240001'', ''WG20240002'', ''WG20241FAB00C9'']"
  by (simp add: later_def auth_defs points_defs register_defs data_defs)

text \<open>
  C9. A successful registration, drawing four random bytes, appends one user row whose
  tracking code is \<open>WG\<close>, the decimal year and the eight upper-case hexadecimal digits of
  the bytes, with user type citizen, 0 points and training not completed. The code
  differs from the code of every other user (the \<open>UNIQUE\<close> constraint refuses the
  row otherwise); along every later run the codes of the users present stay in place, rows
  only being appended, and the codes stay pairwise different. The bytes come from
  \<open>secrets.token_hex\<close>; their randomness is not part of the model.
\<close>

theorem register_creates_citizen_with_tracking_code:
  assumes "length rand = 4"
    and "show_register H year rand now d f = (Success msg, d')"
  shows "users d' = users d @ [new_user_row H year rand now d f]
       \<and> unique_waste_id (new_user_row H year rand now d f)
           = ''WG'' @ str_nat year @ upper (token_hex rand)
       \<and> length (upper (token_hex rand)) = 8
       \<and> set (upper (token_hex rand)) \<subseteq> set ''0123456789ABCDEF''
       \<and> user_type (new_user_row H year rand now d f) = ''citizen''
       \<and> points (new_user_row H year rand now d f) = 0
       \<and> training_completed (new_user_row H year rand now d f) = 0
       \<and> (\<forall>u \<in> set (users d).
            unique_waste_id u \<noteq> unique_waste_id (new_user_row H year rand now d f))
       \<and> (\<forall>sess evs. \<exists>ys.
            map unique_waste_id (users (db (run H \<lparr>db = d', session = sess\<rparr> evs)))
              = map unique_waste_id (users d') @ ys)
       \<and> (distinct (map unique_waste_id (users d)) \<longrightarrow>
            (\<forall>sess evs.
               distinct (map unique_waste_id (users (db (run H \<lparr>db = d', session = sess\<rparr> evs))))))"
proof -
  let ?row = "new_user_row H year rand now d f"
  let ?t = "upper (token_hex rand)"
  have nv: "\<not> violates_unique (users d) ?row" and d': "d' = d\<lparr>users := users d @ [?row]\<rparr>"
    using assms(2) by (auto simp: show_register_cases split: if_splits)
  have 1: "users d' = users d @ [?row]" by (simp add: d')
  have 2: "unique_waste_id ?row = ''WG'' @ str_nat year @ ?t" by (simp add: new_user_row_def)
  have 3: "length ?t = 8" using assms(1) by (simp add: upper_length token_hex_length)
  have 4: "set ?t \<subseteq> set ''0123456789ABCDEF''" by (rule token_hex_upper_set)
  have 5: "user_type ?row = ''citizen''" "points ?row = 0" "training_completed ?row = 0"
    by (simp_all add: new_user_row_def)
  have 6: "\<forall>u \<in> set (users d). unique_waste_id u \<noteq> unique_waste_id ?row"
    using nv by (auto simp: violates_unique_def)
  have 7: "\<forall>sess evs. \<exists>ys.
            map unique_waste_id (users (db (run H \<lparr>db = d', session = sess\<rparr> evs)))
              = map unique_waste_id (users d') @ ys"
  proof (intro allI)
    fix sess evs
    show "\<exists>ys. map unique_waste_id (users (db (run H \<lparr>db = d', session = sess\<rparr> evs)))
              = map unique_waste_id (users d') @ ys"
      using run_waste_ids [of H "\<lparr>db = d', session = sess\<rparr>" evs] by simp
  qed
  have 8: "distinct (map unique_waste_id (users d)) \<longrightarrow>
            (\<forall>sess evs.
               distinct (map unique_waste_id (users (db (run H \<lparr>db = d', session = sess\<rparr> evs)))))"
  proof (intro impI allI)
    fix sess evs
    assume "distinct (map unique_waste_id (users d))"
    with 6 have "distinct (map unique_waste_id (users d'))" by (auto simp: 1)
    then have "distinct (map unique_waste_id (users (db \<lparr>db = d', session = sess\<rparr>)))" by simp
    then show "distinct (map unique_waste_id (users (db (run H \<lparr>db = d', session = sess\<rparr> evs))))"
      by (rule run_distinct_waste_ids)
  qed
  show ?thesis by (intro conjI) (fact 1 2 3 4 5 6 7 8)+
qed

theorem register_creates_citizen_with_tracking_code_witness:
  "length [0x1f, 0xab, 0x00, 0xc9 :: 8 word] = 4
   \<and> show_register stand_in_hash 2024 [0x1f, 0xab, 0x00, 0xc9] ''2024-05-03 10:00:00'' db0 carol_form
       = (Success ''Registration successful! You can now log in.'',
          db0\<lparr>users := [alice, walt, carol]\<rparr>)
   \<and> unique_waste_id carol = ''WG'' @ str_nat 2024 @ upper (token_hex [0x1f, 0xab, 0x00, 0xc9])
   \<and> unique_waste_id carol = ''WG20241FAB00C9''
   \<and> user_type carol = ''citizen'' \<and> points carol = 0 \<and> training_completed carol = 0
   \<and> distinct (map unique_waste_id (users db0))
   \<and> distinct (map unique_waste_id
        (users (db (run stand_in_hash \<lparr>db = db0\<lparr>users := [alice, walt, carol]\<rparr>, session = None\<rparr>
                      later))))
   \<and> map unique_waste_id
        (users (db (run stand_in_hash \<lparr>db = db0\<lparr>users := [alice, walt, carol]\<rparr>, session = None\<rparr>
                      later)))
       = [''WG20240001'', ''WG20240002'', ''WG20241FAB00C9'']"
proof -
  let ?rand = "[0x1f, 0xab, 0x00, 0xc9 :: 8 word]"
  let ?s = "\<lparr>db = db0\<lparr>users := [alice, walt, carol]\<rparr>, session = None\<rparr>"
  have len: "length ?rand = 4" by simp
  have dist: "distinct (map unique_waste_id (users db0))"
    by (simp add: db0_def alice_def walt_def)
  note inst = register_creates_citizen_with_tracking_code [OF len show_register_carol]
  have a: "unique_waste_id carol = ''WG'' @ str_nat 2024 @ upper (token_hex ?rand)"
    using inst by (simp only: new_user_row_carol)
  have b: "distinct (map unique_waste_id (users (db (run stand_in_hash ?s later))))"
    using inst dist by blast
  have c: "unique_waste_id carol = ''WG20241FAB00C9''" "user_type carol = ''citizen''"
    "points carol = 0" "training_completed carol = 0"
    by (simp_all add: carol_def)
  show ?thesis
    by (intro conjI) (fact len show_register_carol a b c dist run_later)+
qed

section \<open>Segregation rate\<close>

lemma sum_list_flags:
  assumes "\<forall>x \<in> set xs. x = 0 \<or> x = (1::int)"
  shows "0 \<le> sum_list xs \<and> sum_list xs \<le> int (length xs)"
  using assms by (induction xs) auto

lemma efficiency_segregation_rate_range:
  assumes "\<forall>c \<in> set waste_data. segregated c = 0 \<or> segregated c = 1"
  shows "\<exists>r. efficiency_segregation_rate waste_data = Float r \<and> 0 \<le> r \<and> r \<le> 100"
proof (cases "waste_data = []")
  case True
  then show ?thesis by (simp add: efficiency_segregation_rate_def)
next
  case False
  let ?n = "length waste_data" and ?s = "sum_list (map segregated waste_data)"
  define q where "q = real_of_int ?s / real ?n"
  have pos: "0 < ?n" using False by simp
  have "\<forall>x \<in> set (map segregated waste_data). x = 0 \<or> x = 1" using assms by auto
  from sum_list_flags [OF this] have s: "0 \<le> ?s" "?s \<le> int ?n" by simp_all
  have q0: "0 \<le> q" unfolding q_def using s(1) by simp
  have q1: "q \<le> 1" unfolding q_def using s(2) pos by (simp add: divide_le_eq_1)
  have rate: "efficiency_segregation_rate waste_data = Float (q * 100)"
    unfolding q_def using pos
    by (simp add: efficiency_segregation_rate_def series_sum_def Let_def)
  have "0 \<le> q * 100" "q * 100 \<le> 100" using q0 q1 by linarith+
  with rate show ?thesis by blast
qed


end
